theory Spec2Isabelle
  imports Main
begin

section \<open>Data model (gamestate.h)\<close>

text \<open>
  A board cell is the two-character \<^verbatim>\<open>QString\<close> of the source: the colour
  (\<^verbatim>\<open>w\<close> or \<^verbatim>\<open>b\<close>) followed by the kind
  (\<^verbatim>\<open>K Q R B N p\<close>); the empty cell is \<^verbatim>\<open>--\<close>.
  The board is the \<^verbatim>\<open>QVector<QVector<QString>>\<close> of eight rows of eight
  cells. Coordinates are C++ \<^verbatim>\<open>int\<close>s; every value the program computes
  with them is far below \<open>2^31\<close>, so they are modelled as \<open>int\<close>.
  Indexing a \<^verbatim>\<open>QVector\<close> outside its range is undefined in the source; the
  model leaves such a read unspecified (\<open>xs ! i\<close>) and no statement below depends on one.
\<close>

type_synonym piece = string
type_synonym board = "piece list list"

definition cell :: "board \<Rightarrow> int \<Rightarrow> int \<Rightarrow> piece" where
  "cell b r c = b ! nat r ! nat c"

definition setCell :: "board \<Rightarrow> int \<Rightarrow> int \<Rightarrow> piece \<Rightarrow> board" where
  "setCell b r c v = b[nat r := (b ! nat r)[nat c := v]]"

record PinInfo =
  pinRow :: int
  pinCol :: int
  dirRow :: int
  dirCol :: int

record CastleRights =
  wks :: bool
  bks :: bool
  wqs :: bool
  bqs :: bool

record Move =
  startRow :: int
  startCol :: int
  endRow :: int
  endCol :: int
  pieceMoved :: piece
  pieceCaptured :: piece
  isPawnPromotion :: bool
  isEnpassantMove :: bool
  isCastleMove :: bool
  isCapture :: bool
  moveID :: int

record GameState =
  board :: board
  whiteToMove :: bool
  moveLog :: "Move list"
  whiteKingLocation :: "int \<times> int"
  blackKingLocation :: "int \<times> int"
  checkmate :: bool
  stalemate :: bool
  inCheck :: bool
  pins :: "PinInfo list"
  checks :: "PinInfo list"
  enPassantPossible :: "int \<times> int"
  enPassantPossibleLog :: "(int \<times> int) list"
  castlingRights :: CastleRights
  castlingRightsLog :: "CastleRights list"

text \<open>\<^verbatim>\<open>Move::Move()\<close>, the default constructor.\<close>

definition defaultMove :: Move where
  "defaultMove = \<lparr>startRow = 0, startCol = 0, endRow = 0, endCol = 0,
     pieceMoved = ''--'', pieceCaptured = ''--'',
     isPawnPromotion = False, isEnpassantMove = False, isCastleMove = False,
     isCapture = False, moveID = 0\<rparr>"

text \<open>\<^verbatim>\<open>Move::Move(startSq, endSq, board, isEnpassantMove, isCastleMove)\<close>.\<close>

definition newMove :: "int \<times> int \<Rightarrow> int \<times> int \<Rightarrow> board \<Rightarrow> bool \<Rightarrow> bool \<Rightarrow> Move" where
  "newMove startSq endSq b ep castle =
    (let sr = fst startSq; sc = snd startSq; er = fst endSq; ec = snd endSq;
         pm = cell b sr sc;
         pc0 = cell b er ec;
         pc = (if ep then (if pm = ''wp'' then ''bp'' else ''wp'') else pc0)
     in \<lparr>startRow = sr, startCol = sc, endRow = er, endCol = ec,
         pieceMoved = pm, pieceCaptured = pc,
         isPawnPromotion = ((pm = ''wp'' \<and> er = 0) \<or> (pm = ''bp'' \<and> er = 7)),
         isEnpassantMove = ep, isCastleMove = castle,
         isCapture = (pc \<noteq> ''--''),
         moveID = sr * 1000 + sc * 100 + er * 10 + ec\<rparr>)"

text \<open>\<^verbatim>\<open>GameState::GameState()\<close>: the standard starting position. The two
  history stacks for castling rights and the en-passant target receive one initial entry;
  the move log starts empty.\<close>

definition initialBoard :: board where
  "initialBoard =
    [[''bR'', ''bN'', ''bB'', ''bQ'', ''bK'', ''bB'', ''bN'', ''bR''],
     [''bp'', ''bp'', ''bp'', ''bp'', ''bp'', ''bp'', ''bp'', ''bp''],
     [''--'', ''--'', ''--'', ''--'', ''--'', ''--'', ''--'', ''--''],
     [''--'', ''--'', ''--'', ''--'', ''--'', ''--'', ''--'', ''--''],
     [''--'', ''--'', ''--'', ''--'', ''--'', ''--'', ''--'', ''--''],
     [''--'', ''--'', ''--'', ''--'', ''--'', ''--'', ''--'', ''--''],
     [''wp'', ''wp'', ''wp'', ''wp'', ''wp'', ''wp'', ''wp'', ''wp''],
     [''wR'', ''wN'', ''wB'', ''wQ'', ''wK'', ''wB'', ''wN'', ''wR'']]"

definition newGameState :: GameState where
  "newGameState = \<lparr>board = initialBoard, whiteToMove = True, moveLog = [],
     whiteKingLocation = (7, 4), blackKingLocation = (0, 4),
     checkmate = False, stalemate = False, inCheck = False, pins = [], checks = [],
     enPassantPossible = (-1, -1), enPassantPossibleLog = [(-1, -1)],
     castlingRights = \<lparr>wks = True, bks = True, wqs = True, bqs = True\<rparr>,
     castlingRightsLog = [\<lparr>wks = True, bks = True, wqs = True, bqs = True\<rparr>]\<rparr>"

section \<open>Applying and reverting moves (gamestate.cpp)\<close>

text \<open>\<^verbatim>\<open>GameState::updateCastleRights\<close>. The capture test looks at the end
  column only; the rook-move test looks at the start row and the start column. The king
  and rook tests form one \<^verbatim>\<open>if / else if\<close> chain.\<close>

definition updateCastleRights :: "CastleRights \<Rightarrow> Move \<Rightarrow> CastleRights" where
  "updateCastleRights cr move =
    (let cr = (if pieceCaptured move = ''wR'' then
                 (if endCol move = 0 then cr\<lparr>wqs := False\<rparr>
                  else if endCol move = 7 then cr\<lparr>wks := False\<rparr> else cr)
               else if pieceCaptured move = ''bR'' then
                 (if endCol move = 0 then cr\<lparr>bqs := False\<rparr>
                  else if endCol move = 7 then cr\<lparr>bks := False\<rparr> else cr)
               else cr)
     in if pieceMoved move = ''wK'' then cr\<lparr>wqs := False, wks := False\<rparr>
        else if pieceMoved move = ''bK'' then cr\<lparr>bqs := False, bks := False\<rparr>
        else if pieceMoved move = ''wR'' then
          (if startRow move = 7 then
             (if startCol move = 0 then cr\<lparr>wqs := False\<rparr>
              else if startCol move = 7 then cr\<lparr>wks := False\<rparr> else cr)
           else cr)
        else if pieceMoved move = ''bR'' then
          (if startRow move = 0 then
             (if startCol move = 0 then cr\<lparr>bqs := False\<rparr>
              else if startCol move = 7 then cr\<lparr>bks := False\<rparr> else cr)
           else cr)
        else cr)"

text \<open>\<^verbatim>\<open>GameState::makeMove\<close>, statement by statement. \<^verbatim>\<open>qAbs\<close> is
  \<open>abs\<close>; the C++ division \<^verbatim>\<open>(startRow + endRow) / 2\<close> is applied to a
  non-negative sum whenever rows are on the board, where it agrees with \<open>div\<close>.\<close>

definition makeMove :: "GameState \<Rightarrow> Move \<Rightarrow> GameState" where
  "makeMove gs0 move =
    (let gs = gs0\<lparr>board := setCell (board gs0) (startRow move) (startCol move) ''--''\<rparr>;
         gs = gs\<lparr>board := setCell (board gs) (endRow move) (endCol move) (pieceMoved move)\<rparr>;
         gs = gs\<lparr>moveLog := moveLog gs @ [move]\<rparr>;
         gs = gs\<lparr>whiteToMove := \<not> whiteToMove gs\<rparr>;
         gs = (if pieceMoved move = ''wK'' then gs\<lparr>whiteKingLocation := (endRow move, endCol move)\<rparr>
               else if pieceMoved move = ''bK'' then gs\<lparr>blackKingLocation := (endRow move, endCol move)\<rparr>
               else gs);
         gs = (if isPawnPromotion move
               then gs\<lparr>board := setCell (board gs) (endRow move) (endCol move) ([pieceMoved move ! 0] @ ''Q'')\<rparr>
               else gs);
         gs = (if isEnpassantMove move
               then gs\<lparr>board := setCell (board gs) (startRow move) (endCol move) ''--''\<rparr>
               else gs);
         gs = (if pieceMoved move ! 1 = CHR ''p'' \<and> \<bar>startRow move - endRow move\<bar> = 2
               then gs\<lparr>enPassantPossible := ((startRow move + endRow move) div 2, startCol move)\<rparr>
               else gs\<lparr>enPassantPossible := (-1, -1)\<rparr>);
         gs = (if isCastleMove move then
                 (if endCol move - startCol move = 2 then
                    (let gs = gs\<lparr>board := setCell (board gs) (endRow move) (endCol move - 1)
                                               (cell (board gs) (endRow move) (endCol move + 1))\<rparr>
                     in gs\<lparr>board := setCell (board gs) (endRow move) (endCol move + 1) ''--''\<rparr>)
                  else
                    (let gs = gs\<lparr>board := setCell (board gs) (endRow move) (endCol move + 1)
                                               (cell (board gs) (endRow move) (endCol move - 2))\<rparr>
                     in gs\<lparr>board := setCell (board gs) (endRow move) (endCol move - 2) ''--''\<rparr>))
               else gs);
         gs = gs\<lparr>enPassantPossibleLog := enPassantPossibleLog gs @ [enPassantPossible gs]\<rparr>;
         gs = gs\<lparr>castlingRights := updateCastleRights (castlingRights gs) move\<rparr>
     in gs\<lparr>castlingRightsLog := castlingRightsLog gs @ [castlingRights gs]\<rparr>)"

text \<open>\<^verbatim>\<open>GameState::undoMove\<close>: a no-op on an empty move log. \<^verbatim>\<open>back()\<close>
  is \<open>last\<close> and \<^verbatim>\<open>pop_back()\<close> is \<open>butlast\<close>.\<close>

definition undoMove :: "GameState \<Rightarrow> GameState" where
  "undoMove gs0 =
    (if moveLog gs0 = [] then gs0 else
     let move = last (moveLog gs0);
         gs = gs0\<lparr>moveLog := butlast (moveLog gs0)\<rparr>;
         gs = gs\<lparr>board := setCell (board gs) (startRow move) (startCol move) (pieceMoved move)\<rparr>;
         gs = gs\<lparr>board := setCell (board gs) (endRow move) (endCol move) (pieceCaptured move)\<rparr>;
         gs = gs\<lparr>whiteToMove := \<not> whiteToMove gs\<rparr>;
         gs = (if pieceMoved move = ''wK'' then gs\<lparr>whiteKingLocation := (startRow move, startCol move)\<rparr>
               else if pieceMoved move = ''bK'' then gs\<lparr>blackKingLocation := (startRow move, startCol move)\<rparr>
               else gs);
         gs = (if isEnpassantMove move then
                 (let gs = gs\<lparr>board := setCell (board gs) (endRow move) (endCol move) ''--''\<rparr>
                  in gs\<lparr>board := setCell (board gs) (startRow move) (endCol move) (pieceCaptured move)\<rparr>)
               else gs);
         gs = gs\<lparr>enPassantPossibleLog := butlast (enPassantPossibleLog gs)\<rparr>;
         gs = gs\<lparr>enPassantPossible := last (enPassantPossibleLog gs)\<rparr>;
         gs = gs\<lparr>castlingRightsLog := butlast (castlingRightsLog gs)\<rparr>;
         gs = gs\<lparr>castlingRights := last (castlingRightsLog gs)\<rparr>;
         gs = (if isCastleMove move then
                 (if endCol move - startCol move = 2 then
                    (let gs = gs\<lparr>board := setCell (board gs) (endRow move) (endCol move + 1)
                                               (cell (board gs) (endRow move) (endCol move - 1))\<rparr>
                     in gs\<lparr>board := setCell (board gs) (endRow move) (endCol move - 1) ''--''\<rparr>)
                  else
                    (let gs = gs\<lparr>board := setCell (board gs) (endRow move) (endCol move - 2)
                                               (cell (board gs) (endRow move) (endCol move + 1))\<rparr>
                     in gs\<lparr>board := setCell (board gs) (endRow move) (endCol move + 1) ''--''\<rparr>))
               else gs)
     in gs\<lparr>checkmate := False, stalemate := False\<rparr>)"

section \<open>Pins and checks (gamestate.cpp)\<close>

definition onBoard :: "int \<Rightarrow> int \<Rightarrow> bool" where
  "onBoard r c = (0 \<le> r \<and> r \<le> 7 \<and> 0 \<le> c \<and> c \<le> 7)"

definition directions8 :: "(int \<times> int) list" where
  "directions8 = [(-1, 0), (0, -1), (1, 0), (0, 1), (-1, -1), (-1, 1), (1, -1), (1, 1)]"

definition knightOffsets :: "(int \<times> int) list" where
  "knightOffsets = [(-2, -1), (-2, 1), (-1, -2), (-1, 2), (1, -2), (1, 2), (2, -1), (2, 1)]"

definition kingOffsets :: "(int \<times> int) list" where
  "kingOffsets = [(-1, -1), (-1, 0), (-1, 1), (0, -1), (0, 1), (1, -1), (1, 0), (1, 1)]"

text \<open>The \<^verbatim>\<open>if / else if\<close> chain that decides whether the enemy piece met at
  distance \<open>i\<close> on ray number \<open>j\<close> attacks the king.\<close>

definition canCheck :: "string \<Rightarrow> nat \<Rightarrow> int \<Rightarrow> char \<Rightarrow> bool" where
  "canCheck enemyColor j i pieceType =
    (if j \<le> 3 \<and> pieceType = CHR ''R'' then True
     else if j \<ge> 4 \<and> pieceType = CHR ''B'' then True
     else if i = 1 \<and> pieceType = CHR ''p'' then
       ((enemyColor = ''w'' \<and> j \<ge> 6 \<and> j \<le> 7) \<or> (enemyColor = ''b'' \<and> j \<ge> 4 \<and> j \<le> 5))
     else if pieceType = CHR ''Q'' then True
     else if i = 1 \<and> pieceType = CHR ''K'' then True
     else False)"

text \<open>The inner loop \<^verbatim>\<open>for (int i = 1; i < 8; i++)\<close> of
  \<^verbatim>\<open>checkForPinsAndChecks\<close> along one ray; the accumulator is
  \<open>(inCheck, pins, checks)\<close>, and every \<^verbatim>\<open>break\<close> returns it.\<close>

function scanRay :: "board \<Rightarrow> string \<Rightarrow> string \<Rightarrow> int \<Rightarrow> int \<Rightarrow> nat \<Rightarrow> int \<times> int \<Rightarrow> int
    \<Rightarrow> PinInfo \<Rightarrow> bool \<times> PinInfo list \<times> PinInfo list \<Rightarrow> bool \<times> PinInfo list \<times> PinInfo list" where
  "scanRay b enemyColor teamColor sr sc j d i possiblePin acc =
    (if i < 8 then
       (let er = sr + fst d * i; ec = sc + snd d * i in
        if onBoard er ec then
          (let endPiece = cell b er ec in
           if endPiece ! 0 = teamColor ! 0 \<and> endPiece ! 1 \<noteq> CHR ''K'' then
             (if pinRow possiblePin = -1
              then scanRay b enemyColor teamColor sr sc j d (i + 1)
                     (possiblePin\<lparr>pinRow := er, pinCol := ec\<rparr>) acc
              else acc)
           else if endPiece ! 0 = enemyColor ! 0 then
             (if canCheck enemyColor j i (endPiece ! 1) then
                (if pinRow possiblePin = -1
                 then (True, fst (snd acc),
                       snd (snd acc) @ [\<lparr>pinRow = er, pinCol = ec, dirRow = fst d, dirCol = snd d\<rparr>])
                 else (fst acc, fst (snd acc) @ [possiblePin], snd (snd acc)))
              else acc)
           else scanRay b enemyColor teamColor sr sc j d (i + 1) possiblePin acc)
        else acc)
     else acc)"
  by pat_completeness auto
termination
  by (relation "measure (\<lambda>(b, e, t, sr, sc, j, d, i, p, acc). nat (8 - i))") auto

declare scanRay.simps [simp del]

definition knightCheck :: "board \<Rightarrow> string \<Rightarrow> int \<Rightarrow> int
    \<Rightarrow> bool \<times> PinInfo list \<times> PinInfo list \<Rightarrow> int \<times> int \<Rightarrow> bool \<times> PinInfo list \<times> PinInfo list" where
  "knightCheck b enemyColor sr sc acc m =
    (let er = sr + fst m; ec = sc + snd m in
     if onBoard er ec then
       (let endPiece = cell b er ec in
        if endPiece ! 0 = enemyColor ! 0 \<and> endPiece ! 1 = CHR ''N''
        then (True, fst (snd acc),
              snd (snd acc) @ [\<lparr>pinRow = er, pinCol = ec, dirRow = fst m, dirCol = snd m\<rparr>])
        else acc)
     else acc)"

text \<open>\<^verbatim>\<open>GameState::checkForPinsAndChecks\<close>; the result is
  \<open>(inCheck, pins, checks)\<close>. It reads the board, the side to move and that side's
  cached king location, and changes nothing.\<close>

definition checkForPinsAndChecks :: "GameState \<Rightarrow> bool \<times> PinInfo list \<times> PinInfo list" where
  "checkForPinsAndChecks gs =
    (let enemyColor = (if whiteToMove gs then ''b'' else ''w'');
         teamColor = (if whiteToMove gs then ''w'' else ''b'');
         sr = (if whiteToMove gs then fst (whiteKingLocation gs) else fst (blackKingLocation gs));
         sc = (if whiteToMove gs then snd (whiteKingLocation gs) else snd (blackKingLocation gs));
         acc = foldl (\<lambda>acc j.
                 scanRay (board gs) enemyColor teamColor sr sc j (directions8 ! j) 1
                   \<lparr>pinRow = -1, pinCol = -1, dirRow = fst (directions8 ! j), dirCol = snd (directions8 ! j)\<rparr>
                   acc)
               (False, [], []) [0 ..< length directions8]
     in foldl (knightCheck (board gs) enemyColor sr sc) acc knightOffsets)"

section \<open>Move generators (gamestate.cpp)\<close>

text \<open>The loop \<^verbatim>\<open>for (int i = pins.size() - 1; i >= 0; i--)\<close> that every piece
  generator starts with: it looks for the last pin recorded on \<open>(row, col)\<close>. The
  counter \<open>n\<close> is \<open>i + 1\<close>. The result is \<open>(piecePinned, pinDirection, index)\<close>.\<close>

fun findPin :: "PinInfo list \<Rightarrow> int \<Rightarrow> int \<Rightarrow> nat \<Rightarrow> bool \<times> (int \<times> int) \<times> nat" where
  "findPin ps r c 0 = (False, (0, 0), 0)"
| "findPin ps r c (Suc i) =
    (if pinRow (ps ! i) = r \<and> pinCol (ps ! i) = c
     then (True, (dirRow (ps ! i), dirCol (ps ! i)), i)
     else findPin ps r c i)"

definition removeAt :: "'a list \<Rightarrow> nat \<Rightarrow> 'a list" where
  "removeAt xs i = take i xs @ drop (Suc i) xs"

text \<open>The pin is removed from the list when found (\<^verbatim>\<open>pins.removeAt(i)\<close>); the rook
  generator keeps it when the piece on the square is a queen.\<close>

definition takePin :: "GameState \<Rightarrow> int \<Rightarrow> int \<Rightarrow> bool \<Rightarrow> bool \<times> (int \<times> int) \<times> GameState" where
  "takePin gs r c keep =
    (case findPin (pins gs) r c (length (pins gs)) of
       (pinned, dir, i) \<Rightarrow>
         (pinned, dir, if pinned \<and> \<not> keep then gs\<lparr>pins := removeAt (pins gs) i\<rparr> else gs))"

text \<open>The four scans of the en-passant guard in \<^verbatim>\<open>getPawnMoves\<close>: is there a
  piece between the king and the pawns, and what is the first piece beyond them.\<close>

function anyPieceUp :: "board \<Rightarrow> int \<Rightarrow> int \<Rightarrow> int \<Rightarrow> bool" where
  "anyPieceUp b r i hi =
    (if i < hi then (if cell b r i \<noteq> ''--'' then True else anyPieceUp b r (i + 1) hi) else False)"
  by pat_completeness auto
termination
  by (relation "measure (\<lambda>(b, r, i, hi). nat (hi - i))") auto

function anyPieceDown :: "board \<Rightarrow> int \<Rightarrow> int \<Rightarrow> int \<Rightarrow> bool" where
  "anyPieceDown b r i lo =
    (if i > lo then (if cell b r i \<noteq> ''--'' then True else anyPieceDown b r (i - 1) lo) else False)"
  by pat_completeness auto
termination
  by (relation "measure (\<lambda>(b, r, i, lo). nat (i - lo))") auto

text \<open>The result is \<open>(attackingPiece, blockingPiece)\<close> as set by the scan.\<close>

function outsideUp :: "board \<Rightarrow> string \<Rightarrow> int \<Rightarrow> int \<Rightarrow> bool \<times> bool" where
  "outsideUp b enemyColor r i =
    (if i < 8 then
       (let square = cell b r i in
        if square ! 0 = enemyColor ! 0 \<and> (square ! 1 = CHR ''R'' \<or> square ! 1 = CHR ''Q'')
        then (True, False)
        else if square \<noteq> ''--'' then (False, True)
        else outsideUp b enemyColor r (i + 1))
     else (False, False))"
  by pat_completeness auto
termination
  by (relation "measure (\<lambda>(b, e, r, i). nat (8 - i))") auto

function outsideDown :: "board \<Rightarrow> string \<Rightarrow> int \<Rightarrow> int \<Rightarrow> bool \<times> bool" where
  "outsideDown b enemyColor r i =
    (if i \<ge> 0 then
       (let square = cell b r i in
        if square ! 0 = enemyColor ! 0 \<and> (square ! 1 = CHR ''R'' \<or> square ! 1 = CHR ''Q'')
        then (True, False)
        else if square \<noteq> ''--'' then (False, True)
        else outsideDown b enemyColor r (i - 1))
     else (False, False))"
  by pat_completeness auto
termination
  by (relation "measure (\<lambda>(b, e, r, i). nat (i + 1))") auto

declare anyPieceUp.simps [simp del] anyPieceDown.simps [simp del]
  outsideUp.simps [simp del] outsideDown.simps [simp del]

text \<open>The guard of the en-passant capture towards column \<open>col + side\<close>
  (\<open>side = -1\<close> for the capture to the left, \<open>1\<close> to the right): the value of
  \<^verbatim>\<open>!attackingPiece || blockingPiece\<close>. The loop bounds are those of the source for
  each of the four cases.\<close>

definition enPassantAllowed :: "board \<Rightarrow> string \<Rightarrow> int \<times> int \<Rightarrow> int \<Rightarrow> int \<Rightarrow> int \<Rightarrow> bool" where
  "enPassantAllowed b enemyColor kingPos r c side =
    (if fst kingPos = r then
       (if snd kingPos < c then
          (let blocking1 = (if side = -1 then anyPieceUp b r (snd kingPos + 1) (c - 1)
                            else anyPieceUp b r (snd kingPos + 1) c);
               out = (if side = -1 then outsideUp b enemyColor r (c + 1)
                      else outsideUp b enemyColor r (c + 2))
           in \<not> fst out \<or> (blocking1 \<or> snd out))
        else
          (let blocking1 = (if side = -1 then anyPieceDown b r (snd kingPos - 1) c
                            else anyPieceDown b r (snd kingPos - 1) (c + 1));
               out = (if side = -1 then outsideDown b enemyColor r (c - 2)
                      else outsideDown b enemyColor r (c - 1))
           in \<not> fst out \<or> (blocking1 \<or> snd out)))
     else True)"

text \<open>\<^verbatim>\<open>GameState::getPawnMoves\<close>. Every generator takes the state and the move
  vector and returns both: the state because the pin list (and, for the king, the cached
  king location) is written, the vector because moves are appended.\<close>

definition pawnCaptures :: "GameState \<Rightarrow> int \<Rightarrow> int \<Rightarrow> int \<Rightarrow> bool \<Rightarrow> int \<times> int \<Rightarrow> int
    \<Rightarrow> Move list \<Rightarrow> Move list" where
  "pawnCaptures gs r c side piecePinned pinDirection moveAmount moves =
    (let enemyColor = (if whiteToMove gs then ''b'' else ''w'');
         kingPos = (if whiteToMove gs then whiteKingLocation gs else blackKingLocation gs)
     in if \<not> piecePinned \<or> pinDirection = (moveAmount, side) then
          (let moves = (if cell (board gs) (r + moveAmount) (c + side) ! 0 = enemyColor ! 0
                        then moves @ [newMove (r, c) (r + moveAmount, c + side) (board gs) False False]
                        else moves)
           in if fst (enPassantPossible gs) = r + moveAmount \<and> snd (enPassantPossible gs) = c + side
              then (if enPassantAllowed (board gs) enemyColor kingPos r c side
                    then moves @ [newMove (r, c) (r + moveAmount, c + side) (board gs) True False]
                    else moves)
              else moves)
        else moves)"

definition getPawnMoves :: "int \<Rightarrow> int \<Rightarrow> GameState \<times> Move list \<Rightarrow> GameState \<times> Move list" where
  "getPawnMoves r c st =
    (case takePin (fst st) r c False of
      (piecePinned, pinDirection, gs) \<Rightarrow>
       (let moves = snd st;
            moveAmount = (if whiteToMove gs then -1 else 1);
            startRow' = (if whiteToMove gs then 6 else 1)
        in if r + moveAmount \<ge> 0 \<and> r + moveAmount \<le> 7 then
             (let moves =
                (if cell (board gs) (r + moveAmount) c = ''--'' then
                   (if \<not> piecePinned \<or> pinDirection = (moveAmount, 0) then
                      (let moves = moves @ [newMove (r, c) (r + moveAmount, c) (board gs) False False]
                       in if r = startRow' \<and> cell (board gs) (r + 2 * moveAmount) c = ''--''
                          then moves @ [newMove (r, c) (r + 2 * moveAmount, c) (board gs) False False]
                          else moves)
                    else moves)
                 else moves);
                  moves = (if c - 1 \<ge> 0
                           then pawnCaptures gs r c (-1) piecePinned pinDirection moveAmount moves
                           else moves);
                  moves = (if c + 1 \<le> 7
                           then pawnCaptures gs r c 1 piecePinned pinDirection moveAmount moves
                           else moves)
              in (gs, moves))
           else (gs, moves)))"

text \<open>The inner loop \<^verbatim>\<open>for (int i = 1; i < 8; i++)\<close> of the rook and bishop
  generators along one direction \<open>d\<close>.\<close>

function slide :: "board \<Rightarrow> string \<Rightarrow> int \<Rightarrow> int \<Rightarrow> bool \<Rightarrow> int \<times> int \<Rightarrow> int \<times> int \<Rightarrow> int
    \<Rightarrow> Move list \<Rightarrow> Move list" where
  "slide b enemyColor r c piecePinned pinDirection d i moves =
    (if i < 8 then
       (let er = r + fst d * i; ec = c + snd d * i in
        if onBoard er ec then
          (if \<not> piecePinned \<or> pinDirection = d \<or> pinDirection = (- fst d, - snd d) then
             (let endPiece = cell b er ec in
              if endPiece = ''--''
              then slide b enemyColor r c piecePinned pinDirection d (i + 1)
                     (moves @ [newMove (r, c) (er, ec) b False False])
              else if endPiece ! 0 = enemyColor ! 0
              then moves @ [newMove (r, c) (er, ec) b False False]
              else moves)
           else slide b enemyColor r c piecePinned pinDirection d (i + 1) moves)
        else moves)
     else moves)"
  by pat_completeness auto
termination
  by (relation "measure (\<lambda>(b, e, r, c, p, pd, d, i, ms). nat (8 - i))") auto

declare slide.simps [simp del]

definition slideAll :: "GameState \<Rightarrow> int \<Rightarrow> int \<Rightarrow> bool \<Rightarrow> int \<times> int \<Rightarrow> (int \<times> int) list
    \<Rightarrow> Move list \<Rightarrow> Move list" where
  "slideAll gs r c piecePinned pinDirection ds moves =
    foldl (\<lambda>ms d. slide (board gs) (if whiteToMove gs then ''b'' else ''w'') r c
                    piecePinned pinDirection d 1 ms) moves ds"

definition getRookMoves :: "int \<Rightarrow> int \<Rightarrow> GameState \<times> Move list \<Rightarrow> GameState \<times> Move list" where
  "getRookMoves r c st =
    (case takePin (fst st) r c (cell (board (fst st)) r c ! 1 = CHR ''Q'') of
      (piecePinned, pinDirection, gs) \<Rightarrow>
        (gs, slideAll gs r c piecePinned pinDirection [(-1, 0), (0, -1), (1, 0), (0, 1)] (snd st)))"

definition getBishopMoves :: "int \<Rightarrow> int \<Rightarrow> GameState \<times> Move list \<Rightarrow> GameState \<times> Move list" where
  "getBishopMoves r c st =
    (case takePin (fst st) r c False of
      (piecePinned, pinDirection, gs) \<Rightarrow>
        (gs, slideAll gs r c piecePinned pinDirection [(-1, -1), (-1, 1), (1, -1), (1, 1)] (snd st)))"

definition getKnightMoves :: "int \<Rightarrow> int \<Rightarrow> GameState \<times> Move list \<Rightarrow> GameState \<times> Move list" where
  "getKnightMoves r c st =
    (case takePin (fst st) r c False of
      (piecePinned, pinDirection, gs) \<Rightarrow>
        (gs, foldl (\<lambda>ms m.
               (let er = r + fst m; ec = c + snd m in
                if onBoard er ec then
                  (if \<not> piecePinned then
                     (if cell (board gs) er ec ! 0 \<noteq> (if whiteToMove gs then ''w'' else ''b'') ! 0
                      then ms @ [newMove (r, c) (er, ec) (board gs) False False]
                      else ms)
                   else ms)
                else ms)) (snd st) knightOffsets))"

text \<open>\<^verbatim>\<open>GameState::getQueenMoves\<close>: the bishop generator runs first and removes
  the queen's pin from the list; the rook generator that follows finds no pin.\<close>

definition getQueenMoves :: "int \<Rightarrow> int \<Rightarrow> GameState \<times> Move list \<Rightarrow> GameState \<times> Move list" where
  "getQueenMoves r c st = getRookMoves r c (getBishopMoves r c st)"

definition setKingLocation :: "GameState \<Rightarrow> int \<times> int \<Rightarrow> GameState" where
  "setKingLocation gs sq =
    (if whiteToMove gs then gs\<lparr>whiteKingLocation := sq\<rparr> else gs\<lparr>blackKingLocation := sq\<rparr>)"

text \<open>\<^verbatim>\<open>GameState::getKingMoves\<close>: for every candidate square the cached king
  location of the side to move is set to the candidate, the check test is run, and the
  location is then set to \<open>(row, col)\<close>, the square the generator was called for.\<close>

definition kingStep :: "int \<Rightarrow> int \<Rightarrow> GameState \<times> Move list \<Rightarrow> int \<times> int \<Rightarrow> GameState \<times> Move list" where
  "kingStep r c st m =
    (let gs = fst st; moves = snd st; er = r + fst m; ec = c + snd m in
     if onBoard er ec then
       (if cell (board gs) er ec ! 0 \<noteq> (if whiteToMove gs then ''w'' else ''b'') ! 0 then
          (let gs = setKingLocation gs (er, ec);
               inCheck' = fst (checkForPinsAndChecks gs);
               moves = (if \<not> inCheck' then moves @ [newMove (r, c) (er, ec) (board gs) False False]
                        else moves)
           in (setKingLocation gs (r, c), moves))
        else (gs, moves))
     else (gs, moves))"

definition getKingMoves :: "int \<Rightarrow> int \<Rightarrow> GameState \<times> Move list \<Rightarrow> GameState \<times> Move list" where
  "getKingMoves r c st = foldl (kingStep r c) st kingOffsets"

text \<open>The dispatch through \<^verbatim>\<open>moveFunctions\<close>: one generator per piece letter.\<close>

definition moveFunction :: "char \<Rightarrow> int \<Rightarrow> int \<Rightarrow> GameState \<times> Move list \<Rightarrow> GameState \<times> Move list" where
  "moveFunction k r c st =
    (if k = CHR ''p'' then getPawnMoves r c st
     else if k = CHR ''R'' then getRookMoves r c st
     else if k = CHR ''N'' then getKnightMoves r c st
     else if k = CHR ''B'' then getBishopMoves r c st
     else if k = CHR ''Q'' then getQueenMoves r c st
     else if k = CHR ''K'' then getKingMoves r c st
     else st)"

definition allSquares :: "(int \<times> int) list" where
  "allSquares = concat (map (\<lambda>r. map (\<lambda>c. (r, c)) [0, 1, 2, 3, 4, 5, 6, 7]) [0, 1, 2, 3, 4, 5, 6, 7])"

definition visitSquare :: "GameState \<times> Move list \<Rightarrow> int \<times> int \<Rightarrow> GameState \<times> Move list" where
  "visitSquare st sq =
    (let gs = fst st; turn = cell (board gs) (fst sq) (snd sq) ! 0 in
     if (turn = CHR ''w'' \<and> whiteToMove gs) \<or> (turn = CHR ''b'' \<and> \<not> whiteToMove gs)
     then moveFunction (cell (board gs) (fst sq) (snd sq) ! 1) (fst sq) (snd sq) st
     else st)"

text \<open>\<^verbatim>\<open>GameState::getAllPossibleMoves\<close>: the two nested loops over rows and
  columns, in row-major order. The result is the move vector and the state the call
  leaves behind.\<close>

definition getAllPossibleMoves :: "GameState \<Rightarrow> Move list \<times> GameState" where
  "getAllPossibleMoves gs = (case foldl visitSquare (gs, []) allSquares of (gs', moves) \<Rightarrow> (moves, gs'))"

text \<open>\<^verbatim>\<open>GameState::squareUnderAttack\<close>: the turn flag is flipped, the opponent's
  moves are generated, the flag is flipped back.\<close>

definition squareUnderAttack :: "int \<Rightarrow> int \<Rightarrow> GameState \<Rightarrow> bool \<times> GameState" where
  "squareUnderAttack r c gs =
    (case getAllPossibleMoves (gs\<lparr>whiteToMove := \<not> whiteToMove gs\<rparr>) of
      (opponentMoves, gs') \<Rightarrow>
        (list_ex (\<lambda>m. endRow m = r \<and> endCol m = c) opponentMoves,
         gs'\<lparr>whiteToMove := \<not> whiteToMove gs'\<rparr>))"

definition getKingsideCastleMoves :: "int \<Rightarrow> int \<Rightarrow> GameState \<times> Move list \<Rightarrow> GameState \<times> Move list" where
  "getKingsideCastleMoves r c st =
    (let gs = fst st; moves = snd st in
     if c + 2 > 7 then (gs, moves)
     else if cell (board gs) r (c + 1) = ''--'' \<and> cell (board gs) r (c + 2) = ''--'' then
       (case squareUnderAttack r (c + 1) gs of
         (a1, gs1) \<Rightarrow>
           if \<not> a1 then
             (case squareUnderAttack r (c + 2) gs1 of
               (a2, gs2) \<Rightarrow>
                 if \<not> a2 then (gs2, moves @ [newMove (r, c) (r, c + 2) (board gs2) False True])
                 else (gs2, moves))
           else (gs1, moves))
     else (gs, moves))"

definition getQueensideCastleMoves :: "int \<Rightarrow> int \<Rightarrow> GameState \<times> Move list \<Rightarrow> GameState \<times> Move list" where
  "getQueensideCastleMoves r c st =
    (let gs = fst st; moves = snd st in
     if c - 2 < 0 \<or> c - 3 < 0 then (gs, moves)
     else if cell (board gs) r (c - 1) = ''--'' \<and> cell (board gs) r (c - 2) = ''--''
             \<and> cell (board gs) r (c - 3) = ''--'' then
       (case squareUnderAttack r (c - 1) gs of
         (a1, gs1) \<Rightarrow>
           if \<not> a1 then
             (case squareUnderAttack r (c - 2) gs1 of
               (a2, gs2) \<Rightarrow>
                 if \<not> a2 then (gs2, moves @ [newMove (r, c) (r, c - 2) (board gs2) False True])
                 else (gs2, moves))
           else (gs1, moves))
     else (gs, moves))"

text \<open>\<^verbatim>\<open>GameState::getCastleMoves\<close>: nothing is added when the king's square is
  attacked according to \<^verbatim>\<open>squareUnderAttack\<close>.\<close>

definition getCastleMoves :: "int \<Rightarrow> int \<Rightarrow> GameState \<times> Move list \<Rightarrow> GameState \<times> Move list" where
  "getCastleMoves r c st =
    (case squareUnderAttack r c (fst st) of
      (attacked, gs) \<Rightarrow>
        if attacked then (gs, snd st)
        else
          (let st1 = (if (whiteToMove gs \<and> wks (castlingRights gs)) \<or> (\<not> whiteToMove gs \<and> bks (castlingRights gs))
                      then getKingsideCastleMoves r c (gs, snd st) else (gs, snd st))
           in if (whiteToMove (fst st1) \<and> wqs (castlingRights (fst st1)))
                 \<or> (\<not> whiteToMove (fst st1) \<and> bqs (castlingRights (fst st1)))
              then getQueensideCastleMoves r c st1 else st1))"

text \<open>The squares that resolve a single check: the checker's square for a knight, else
  the ray from the king up to and including the checker.\<close>

function raySquares :: "int \<Rightarrow> int \<Rightarrow> PinInfo \<Rightarrow> int \<Rightarrow> (int \<times> int) list \<Rightarrow> (int \<times> int) list" where
  "raySquares kingRow kingCol check i acc =
    (if i < 8 then
       (let square = (kingRow + dirRow check * i, kingCol + dirCol check * i);
            acc = acc @ [square]
        in if fst square = pinRow check \<and> snd square = pinCol check then acc
           else raySquares kingRow kingCol check (i + 1) acc)
     else acc)"
  by pat_completeness auto
termination
  by (relation "measure (\<lambda>(kr, kc, ch, i, acc). nat (8 - i))") auto

declare raySquares.simps [simp del]

text \<open>\<^verbatim>\<open>GameState::getValidMoves\<close>. The backward loop with \<^verbatim>\<open>removeAt\<close>
  deletes exactly the non-king moves whose end square is not among the valid squares and
  keeps the order of the others, which is \<open>filter\<close>. The result is the move vector and
  the state the call leaves behind.\<close>

definition getValidMoves :: "GameState \<Rightarrow> Move list \<times> GameState" where
  "getValidMoves gs0 =
    (let tempCastleRights = castlingRights gs0;
         pc = checkForPinsAndChecks gs0;
         gs = gs0\<lparr>inCheck := fst pc, pins := fst (snd pc), checks := snd (snd pc)\<rparr>;
         kingRow = (if whiteToMove gs then fst (whiteKingLocation gs) else fst (blackKingLocation gs));
         kingCol = (if whiteToMove gs then snd (whiteKingLocation gs) else snd (blackKingLocation gs));
         st =
          (if inCheck gs then
             (let st1 =
                (if length (checks gs) = 1 then
                   (case getAllPossibleMoves gs of
                     (moves, gs1) \<Rightarrow>
                       (let check = checks gs1 ! 0;
                            pieceChecking = cell (board gs1) (pinRow check) (pinCol check);
                            validSquares =
                              (if pieceChecking ! 1 = CHR ''N'' then [(pinRow check, pinCol check)]
                               else raySquares kingRow kingCol check 1 [])
                        in (gs1, filter (\<lambda>m. pieceMoved m ! 1 = CHR ''K'' \<or>
                                         list_ex (\<lambda>sq. endRow m = fst sq \<and> endCol m = snd sq) validSquares)
                                   moves)))
                 else getKingMoves kingRow kingCol (gs, []))
              in if whiteToMove (fst st1)
                 then getCastleMoves (fst (whiteKingLocation (fst st1))) (snd (whiteKingLocation (fst st1))) st1
                 else getCastleMoves (fst (blackKingLocation (fst st1))) (snd (blackKingLocation (fst st1))) st1)
           else
             (case getAllPossibleMoves gs of
               (moves, gs1) \<Rightarrow>
                 if whiteToMove gs1
                 then getCastleMoves (fst (whiteKingLocation gs1)) (snd (whiteKingLocation gs1)) (gs1, moves)
                 else getCastleMoves (fst (blackKingLocation gs1)) (snd (blackKingLocation gs1)) (gs1, moves)));
         gs2 = fst st; moves = snd st;
         gs3 = (if moves = [] then
                  (if inCheck gs2 then gs2\<lparr>checkmate := True, stalemate := False\<rparr>
                   else gs2\<lparr>checkmate := False, stalemate := True\<rparr>)
                else gs2\<lparr>checkmate := False, stalemate := False\<rparr>)
     in (moves, gs3\<lparr>castlingRights := tempCastleRights\<rparr>))"

section \<open>Move text (gamestate.cpp)\<close>

text \<open>The static maps \<^verbatim>\<open>colsToFiles\<close> and \<^verbatim>\<open>rowsToRanks\<close> as the
  \<^verbatim>\<open>GameState\<close> constructor fills them; \<^verbatim>\<open>QMap::operator[]\<close> yields the empty
  string for a key that is not present.\<close>

definition colsToFiles :: "int \<Rightarrow> string" where
  "colsToFiles c =
    (if c = 0 then ''a'' else if c = 1 then ''b'' else if c = 2 then ''c'' else if c = 3 then ''d''
     else if c = 4 then ''e'' else if c = 5 then ''f'' else if c = 6 then ''g'' else if c = 7 then ''h''
     else [])"

definition rowsToRanks :: "int \<Rightarrow> string" where
  "rowsToRanks r =
    (if r = 7 then ''1'' else if r = 6 then ''2'' else if r = 5 then ''3'' else if r = 4 then ''4''
     else if r = 3 then ''5'' else if r = 2 then ''6'' else if r = 1 then ''7'' else if r = 0 then ''8''
     else [])"

definition getRankFile :: "int \<Rightarrow> int \<Rightarrow> string" where
  "getRankFile r c = colsToFiles c @ rowsToRanks r"

text \<open>\<^verbatim>\<open>Move::getChessNotation\<close>. The castle test compares the end column with 1.\<close>

definition getChessNotation :: "Move \<Rightarrow> string" where
  "getChessNotation m =
    (if isPawnPromotion m then getRankFile (endRow m) (endCol m) @ ''Q''
     else if isCastleMove m then (if endCol m = 1 then ''O-O-O'' else ''O-O'')
     else if isEnpassantMove m
       then [pieceMoved m ! 1] @ ''x'' @ getRankFile (endRow m) (endCol m) @ '' e.p.''
     else if pieceCaptured m \<noteq> ''--'' then
       (if pieceMoved m ! 1 = CHR ''p''
        then [getRankFile (startRow m) (startCol m) ! 0] @ ''x'' @ getRankFile (endRow m) (endCol m)
        else [pieceMoved m ! 1] @ ''x'' @ getRankFile (endRow m) (endCol m))
     else
       (if pieceMoved m ! 1 = CHR ''p'' then getRankFile (endRow m) (endCol m)
        else [pieceMoved m ! 1] @ getRankFile (endRow m) (endCol m)))"

text \<open>\<^verbatim>\<open>Move::toString\<close>, the text the move-log panel shows. The castle test
  compares the end column with 6; there is no en-passant case.\<close>

definition toString :: "Move \<Rightarrow> string" where
  "toString m =
    (if isCastleMove m then (if endCol m = 6 then ''O-O'' else ''O-O-O'')
     else
       (let endSquare = getRankFile (endRow m) (endCol m) in
        if pieceMoved m ! 1 = CHR ''p'' then
          (if isCapture m then colsToFiles (startCol m) @ ''x'' @ endSquare
           else (if isPawnPromotion m then endSquare @ ''Q'' else endSquare))
        else
          (let moveString = [pieceMoved m ! 1];
               moveString = (if isCapture m then moveString @ ''x'' else moveString)
           in moveString @ endSquare)))"

section \<open>Static evaluation (chessai.cpp)\<close>

definition CHECKMATE :: int where "CHECKMATE = 1000"
definition STALEMATE :: int where "STALEMATE = 0"
definition DEPTH :: nat where "DEPTH = 3"

text \<open>\<^verbatim>\<open>pieceScore\<close>, a \<^verbatim>\<open>QMap<QChar, int>\<close>; a missing key reads as 0.\<close>

definition pieceScore :: "char \<Rightarrow> int" where
  "pieceScore k =
    (if k = CHR ''K'' then 0 else if k = CHR ''Q'' then 9 else if k = CHR ''R'' then 5
     else if k = CHR ''B'' then 3 else if k = CHR ''N'' then 3 else if k = CHR ''p'' then 1 else 0)"

text \<open>
  The position tables of \<^verbatim>\<open>initScoreTables\<close>. The source stores \<^verbatim>\<open>double\<close>s,
  all of them multiples of 0.05 between 0 and 0.8; the model stores the same numbers in
  hundredths, as integers. The tables for Black are the row-reversed copies
  (\<^verbatim>\<open>std::reverse\<close>).
\<close>

definition knightScores :: "int list list" where
  "knightScores =
    [[0, 10, 20, 20, 20, 20, 10, 0],
     [10, 30, 50, 50, 50, 50, 30, 10],
     [20, 50, 60, 65, 65, 60, 50, 20],
     [20, 55, 65, 70, 70, 65, 55, 20],
     [20, 50, 65, 70, 70, 65, 50, 20],
     [20, 55, 60, 65, 65, 60, 55, 20],
     [10, 30, 50, 55, 55, 50, 30, 10],
     [0, 10, 20, 20, 20, 20, 10, 0]]"

definition bishopScores :: "int list list" where
  "bishopScores =
    [[0, 20, 20, 20, 20, 20, 20, 0],
     [20, 40, 40, 40, 40, 40, 40, 20],
     [20, 40, 50, 60, 60, 50, 40, 20],
     [20, 50, 50, 60, 60, 50, 50, 20],
     [20, 40, 60, 60, 60, 60, 40, 20],
     [20, 60, 60, 60, 60, 60, 60, 20],
     [20, 50, 40, 40, 40, 40, 50, 20],
     [0, 20, 20, 20, 20, 20, 20, 0]]"

definition rookScores :: "int list list" where
  "rookScores =
    [[25, 25, 25, 25, 25, 25, 25, 25],
     [50, 75, 75, 75, 75, 75, 75, 50],
     [0, 25, 25, 25, 25, 25, 25, 0],
     [0, 25, 25, 25, 25, 25, 25, 0],
     [0, 25, 25, 25, 25, 25, 25, 0],
     [0, 25, 25, 25, 25, 25, 25, 0],
     [0, 25, 25, 25, 25, 25, 25, 0],
     [25, 25, 25, 50, 50, 25, 25, 25]]"

definition queenScores :: "int list list" where
  "queenScores =
    [[0, 20, 20, 30, 30, 20, 20, 0],
     [20, 40, 40, 40, 40, 40, 40, 20],
     [20, 40, 50, 50, 50, 50, 40, 20],
     [30, 40, 50, 50, 50, 50, 40, 30],
     [40, 40, 50, 50, 50, 50, 40, 30],
     [20, 50, 50, 50, 50, 50, 40, 20],
     [20, 40, 50, 40, 40, 40, 40, 20],
     [0, 20, 20, 30, 30, 20, 20, 0]]"

definition pawnScores :: "int list list" where
  "pawnScores =
    [[80, 80, 80, 80, 80, 80, 80, 80],
     [70, 70, 70, 70, 70, 70, 70, 70],
     [30, 30, 40, 50, 50, 40, 30, 30],
     [25, 25, 30, 45, 45, 30, 25, 25],
     [20, 20, 20, 40, 40, 20, 20, 20],
     [25, 15, 10, 20, 20, 10, 15, 25],
     [25, 30, 30, 0, 0, 30, 30, 25],
     [20, 20, 20, 20, 20, 20, 20, 20]]"

text \<open>\<^verbatim>\<open>piecePositionScores\<close>, a \<^verbatim>\<open>QMap<QString, QVector<QVector<double>>>\<close>;
  a missing key reads as the empty table.\<close>

definition piecePositionScores :: "piece \<Rightarrow> int list list" where
  "piecePositionScores p =
    (if p = ''wN'' then knightScores else if p = ''bN'' then rev knightScores
     else if p = ''wB'' then bishopScores else if p = ''bB'' then rev bishopScores
     else if p = ''wQ'' then queenScores else if p = ''bQ'' then rev queenScores
     else if p = ''wR'' then rookScores else if p = ''bR'' then rev rookScores
     else if p = ''wp'' then pawnScores else if p = ''bp'' then rev pawnScores
     else [])"

text \<open>
  The accumulator of \<^verbatim>\<open>scoreBoard\<close> is an \<^verbatim>\<open>int\<close>, the summand a
  \<^verbatim>\<open>double\<close>: \<^verbatim>\<open>score += x\<close> computes \<^verbatim>\<open>score + x\<close> in
  \<^verbatim>\<open>double\<close> and converts the result back to \<^verbatim>\<open>int\<close>, which truncates
  towards zero, at every square. With the sum taken in hundredths the conversion is
  \<open>truncate\<close> below. The result agrees with the \<^verbatim>\<open>double\<close> computation: a sum
  whose fraction is not zero is at least 0.05 away from the next integer, far more than
  the rounding error of a \<^verbatim>\<open>double\<close> of this size, and a sum with fraction zero
  is exact.
\<close>

definition truncate :: "int \<Rightarrow> int" where
  "truncate h = (if h \<ge> 0 then h div 100 else - ((- h) div 100))"

text \<open>The summand of one square in hundredths: material value plus position value, the
  latter left out for a king.\<close>

definition squareValue :: "board \<Rightarrow> int \<times> int \<Rightarrow> int" where
  "squareValue b sq =
    (let p = cell b (fst sq) (snd sq);
         piecePositionScore = (if p ! 1 \<noteq> CHR ''K''
                               then piecePositionScores p ! nat (fst sq) ! nat (snd sq) else 0)
     in 100 * pieceScore (p ! 1) + piecePositionScore)"

definition scoreStep :: "board \<Rightarrow> int \<Rightarrow> int \<times> int \<Rightarrow> int" where
  "scoreStep b score sq =
    (let p = cell b (fst sq) (snd sq) in
     if p \<noteq> ''--'' then
       (if p ! 0 = CHR ''w'' then truncate (100 * score + squareValue b sq)
        else truncate (100 * score - squareValue b sq))
     else score)"

text \<open>\<^verbatim>\<open>ChessAI::scoreBoard\<close>.\<close>

definition scoreBoard :: "GameState \<Rightarrow> int" where
  "scoreBoard gs =
    (if checkmate gs then (if whiteToMove gs then - CHECKMATE else CHECKMATE)
     else if stalemate gs then STALEMATE
     else foldl (scoreStep (board gs)) 0 allSquares)"

text \<open>The sum the specification describes, in hundredths: over all occupied squares,
  material value plus position value (none for a king), added for White and subtracted
  for Black.\<close>

definition signedValue :: "board \<Rightarrow> int \<times> int \<Rightarrow> int" where
  "signedValue b sq =
    (let p = cell b (fst sq) (snd sq) in
     if p = ''--'' then 0 else if p ! 0 = CHR ''w'' then squareValue b sq else - squareValue b sq)"

definition materialAndPosition :: "board \<Rightarrow> int" where
  "materialAndPosition b = sum_list (map (signedValue b) allSquares)"

section \<open>Search (chessai.cpp)\<close>

text \<open>\<^verbatim>\<open>ChessAI::isValidMove\<close>; \<^verbatim>\<open>Move::operator==\<close> compares the
  \<^verbatim>\<open>moveID\<close> only.\<close>

definition isValidMove :: "Move \<Rightarrow> Move list \<Rightarrow> bool" where
  "isValidMove move validMoves = list_ex (\<lambda>validMove. moveID move = moveID validMove) validMoves"

text \<open>
  The loop \<^verbatim>\<open>for (const Move& move : validMoves)\<close> of
  \<^verbatim>\<open>findMoveNegaMaxAlphaBeta\<close>. The recursive call for the next depth is the
  parameter \<open>rec\<close>; \<open>root\<close> is the test \<^verbatim>\<open>depth == DEPTH\<close>. The member
  \<^verbatim>\<open>nextMove\<close> and the state behind \<^verbatim>\<open>gs\<close> are passed along and returned
  with the score.
\<close>

fun searchMoves :: "(GameState \<Rightarrow> Move list \<Rightarrow> int \<Rightarrow> int \<Rightarrow> Move \<Rightarrow> int \<times> Move \<times> GameState)
    \<Rightarrow> bool \<Rightarrow> Move list \<Rightarrow> int \<Rightarrow> int \<Rightarrow> int \<Rightarrow> Move \<Rightarrow> GameState \<Rightarrow> int \<times> Move \<times> GameState" where
  "searchMoves rec root [] maxScore alpha beta nextMove gs = (maxScore, nextMove, gs)"
| "searchMoves rec root (move # rest) maxScore alpha beta nextMove gs =
    (case getValidMoves (makeMove gs move) of
      (nextMoves, gs2) \<Rightarrow>
        (case rec gs2 nextMoves (- beta) (- alpha) nextMove of
          (r, nextMove1, gs3) \<Rightarrow>
            (let score = - r;
                 gs4 = undoMove gs3;
                 nextMove2 = (if score > maxScore \<and> root then move else nextMove1);
                 maxScore2 = (if score > maxScore then score else maxScore);
                 alpha2 = (if maxScore2 > alpha then maxScore2 else alpha)
             in if alpha2 \<ge> beta then (maxScore2, nextMove2, gs4)
                else searchMoves rec root rest maxScore2 alpha2 beta nextMove2 gs4)))"

text \<open>\<^verbatim>\<open>ChessAI::findMoveNegaMaxAlphaBeta\<close>. The depth only counts down from
  \<^verbatim>\<open>DEPTH\<close> to 0 and is a natural number here.\<close>

primrec findMoveNegaMaxAlphaBeta :: "nat \<Rightarrow> int \<Rightarrow> GameState \<Rightarrow> Move list \<Rightarrow> int \<Rightarrow> int \<Rightarrow> Move
    \<Rightarrow> int \<times> Move \<times> GameState" where
  "findMoveNegaMaxAlphaBeta 0 turnMultiplier =
    (\<lambda>gs validMoves alpha beta nextMove. (turnMultiplier * scoreBoard gs, nextMove, gs))"
| "findMoveNegaMaxAlphaBeta (Suc d) turnMultiplier =
    (\<lambda>gs validMoves alpha beta nextMove.
      searchMoves (findMoveNegaMaxAlphaBeta d (- turnMultiplier)) (Suc d = DEPTH)
        validMoves (- CHECKMATE) alpha beta nextMove gs)"

text \<open>
  The unpruned full-width negamax search the specification compares with: the same
  recursion over the same move lists, without the window and without the cutoff.
\<close>

fun fullMoves :: "(GameState \<Rightarrow> Move list \<Rightarrow> int \<times> GameState)
    \<Rightarrow> Move list \<Rightarrow> int \<Rightarrow> GameState \<Rightarrow> int \<times> GameState" where
  "fullMoves rec [] maxScore gs = (maxScore, gs)"
| "fullMoves rec (move # rest) maxScore gs =
    (case getValidMoves (makeMove gs move) of
      (nextMoves, gs2) \<Rightarrow>
        (case rec gs2 nextMoves of
          (r, gs3) \<Rightarrow>
            (let score = - r;
                 gs4 = undoMove gs3;
                 maxScore2 = (if score > maxScore then score else maxScore)
             in fullMoves rec rest maxScore2 gs4)))"

primrec findMoveNegaMax :: "nat \<Rightarrow> int \<Rightarrow> GameState \<Rightarrow> Move list \<Rightarrow> int \<times> GameState" where
  "findMoveNegaMax 0 turnMultiplier = (\<lambda>gs validMoves. (turnMultiplier * scoreBoard gs, gs))"
| "findMoveNegaMax (Suc d) turnMultiplier =
    (\<lambda>gs validMoves. fullMoves (findMoveNegaMax d (- turnMultiplier)) validMoves (- CHECKMATE) gs)"

text \<open>
  The random source: \<open>gen k\<close> is the raw value of the \<open>k\<close>-th draw, and
  \<^verbatim>\<open>QRandomGenerator::bounded(n)\<close> is that value modulo \<open>n\<close>; every sequence of
  outcomes is the image of some \<open>gen\<close>.
\<close>

definition swapAt :: "nat \<Rightarrow> nat \<Rightarrow> 'a list \<Rightarrow> 'a list" where
  "swapAt i j xs = xs[i := xs ! j, j := xs ! i]"

text \<open>The loop \<^verbatim>\<open>for (int i = size - 1; i > 0; i--)\<close> of \<^verbatim>\<open>findBestMove\<close>;
  the counter is \<open>i\<close>, and \<open>k\<close> numbers the draws.\<close>

fun shuffleFrom :: "(nat \<Rightarrow> nat) \<Rightarrow> nat \<Rightarrow> nat \<Rightarrow> Move list \<Rightarrow> Move list" where
  "shuffleFrom gen k 0 ms = ms"
| "shuffleFrom gen k (Suc i) ms =
    (let j = gen k mod (Suc i + 1)
     in shuffleFrom gen (Suc k) i (if Suc i \<noteq> j then swapAt (Suc i) j ms else ms))"

text \<open>\<^verbatim>\<open>ChessAI::findRandomMove\<close>, drawing with draw number \<open>k\<close>.\<close>

definition findRandomMove :: "(nat \<Rightarrow> nat) \<Rightarrow> nat \<Rightarrow> Move list \<Rightarrow> Move" where
  "findRandomMove gen k validMoves =
    (if validMoves = [] then defaultMove else validMoves ! (gen k mod length validMoves))"

text \<open>\<^verbatim>\<open>ChessAI::findBestMove\<close>; the result is the returned move and the state
  the call leaves behind. The debug output and the signal are not modelled.\<close>

definition findBestMove :: "(nat \<Rightarrow> nat) \<Rightarrow> GameState \<Rightarrow> Move list \<Rightarrow> Move \<times> GameState" where
  "findBestMove gen gs validMoves =
    (if validMoves = [] then (defaultMove, gs)
     else
       (let shuffledMoves = shuffleFrom gen 0 (length validMoves - 1) validMoves in
        case findMoveNegaMaxAlphaBeta DEPTH (if whiteToMove gs then 1 else -1) gs shuffledMoves
               (- CHECKMATE) CHECKMATE defaultMove of
          (score, nextMove, gs') \<Rightarrow>
            (if moveID nextMove = 0 \<or> \<not> isValidMove nextMove validMoves
             then (findRandomMove gen (length validMoves - 1) validMoves, gs')
             else (nextMove, gs'))))"

text \<open>A history of calls on one \<^verbatim>\<open>GameState\<close> object.\<close>

datatype call = MakeMove Move | UndoMove

fun applyCall :: "GameState \<Rightarrow> call \<Rightarrow> GameState" where
  "applyCall gs (MakeMove m) = makeMove gs m"
| "applyCall gs UndoMove = undoMove gs"

definition runCalls :: "GameState \<Rightarrow> call list \<Rightarrow> GameState" where
  "runCalls gs cs = foldl applyCall gs cs"

text \<open>The number of applied moves that have not been undone: an undo with nothing to
  undo leaves the count at zero.\<close>

fun pending :: "nat \<Rightarrow> call list \<Rightarrow> nat" where
  "pending n [] = n"
| "pending n (MakeMove m # cs) = pending (Suc n) cs"
| "pending n (UndoMove # cs) = pending (n - 1) cs"

section \<open>Playing listed moves\<close>

text \<open>
  The loop of the application around the core: ask \<^verbatim>\<open>getValidMoves\<close> for the legal
  moves, pick one of the listed moves, and apply it with \<^verbatim>\<open>makeMove\<close> to the state
  that \<^verbatim>\<open>getValidMoves\<close> left behind. The move is picked by its identifier, which
  encodes the four coordinates the application compares. A position is reached from the
  constructed \<^verbatim>\<open>GameState\<close> when \<open>playMoves\<close> returns it.
\<close>

definition playMove :: "GameState \<Rightarrow> int \<Rightarrow> GameState option" where
  "playMove gs i =
    (case getValidMoves gs of
      (moves, gs') \<Rightarrow> map_option (makeMove gs') (find (\<lambda>m. moveID m = i) moves))"

fun playMoves :: "GameState \<Rightarrow> int list \<Rightarrow> GameState option" where
  "playMoves gs [] = Some gs"
| "playMoves gs (i # is) = (case playMove gs i of None \<Rightarrow> None | Some gs' \<Rightarrow> playMoves gs' is)"

section \<open>History stacks\<close>

lemma makeMove_moveLog: "moveLog (makeMove gs m) = moveLog gs @ [m]"
  by (simp add: makeMove_def Let_def)

lemma makeMove_castlingRightsLog_length:
  "length (castlingRightsLog (makeMove gs m)) = Suc (length (castlingRightsLog gs))"
  by (simp add: makeMove_def Let_def)

lemma makeMove_enPassantPossibleLog_length:
  "length (enPassantPossibleLog (makeMove gs m)) = Suc (length (enPassantPossibleLog gs))"
  by (simp add: makeMove_def Let_def)

lemma undoMove_moveLog: "moveLog (undoMove gs) = butlast (moveLog gs)"
  by (simp add: undoMove_def Let_def)

lemma undoMove_castlingRightsLog:
  "castlingRightsLog (undoMove gs) =
     (if moveLog gs = [] then castlingRightsLog gs else butlast (castlingRightsLog gs))"
  by (simp add: undoMove_def Let_def)

lemma undoMove_enPassantPossibleLog:
  "enPassantPossibleLog (undoMove gs) =
     (if moveLog gs = [] then enPassantPossibleLog gs else butlast (enPassantPossibleLog gs))"
  by (simp add: undoMove_def Let_def)

lemma stacks_after_calls:
  assumes "length (moveLog gs) = n"
      and "length (castlingRightsLog gs) = Suc n"
      and "length (enPassantPossibleLog gs) = Suc n"
  shows "length (moveLog (runCalls gs cs)) = pending n cs
       \<and> length (castlingRightsLog (runCalls gs cs)) = Suc (pending n cs)
       \<and> length (enPassantPossibleLog (runCalls gs cs)) = Suc (pending n cs)"
  using assms
proof (induction cs arbitrary: gs n)
  case Nil
  then show ?case by (simp add: runCalls_def)
next
  case (Cons c cs)
  show ?case
  proof (cases c)
    case (MakeMove m)
    have "length (moveLog (makeMove gs m)) = Suc n"
      using Cons.prems by (simp add: makeMove_moveLog)
    moreover have "length (castlingRightsLog (makeMove gs m)) = Suc (Suc n)"
      using Cons.prems by (simp add: makeMove_castlingRightsLog_length)
    moreover have "length (enPassantPossibleLog (makeMove gs m)) = Suc (Suc n)"
      using Cons.prems by (simp add: makeMove_enPassantPossibleLog_length)
    ultimately show ?thesis
      using Cons.IH [of "makeMove gs m" "Suc n"] MakeMove by (simp add: runCalls_def)
  next
    case UndoMove
    show ?thesis
    proof (cases "moveLog gs = []")
      case True
      then have "undoMove gs = gs" by (simp add: undoMove_def)
      moreover from True Cons.prems have "n = 0" by simp
      ultimately show ?thesis
        using Cons.IH [of gs 0] Cons.prems UndoMove by (simp add: runCalls_def)
    next
      case False
      then have n: "0 < n" using Cons.prems by auto
      have "length (moveLog (undoMove gs)) = n - 1"
        using Cons.prems by (simp add: undoMove_moveLog)
      moreover have "length (castlingRightsLog (undoMove gs)) = Suc (n - 1)"
        using Cons.prems False n by (simp add: undoMove_castlingRightsLog)
      moreover have "length (enPassantPossibleLog (undoMove gs)) = Suc (n - 1)"
        using Cons.prems False n by (simp add: undoMove_enPassantPossibleLog)
      ultimately show ?thesis
        using Cons.IH [of "undoMove gs" "n - 1"] UndoMove by (simp add: runCalls_def)
    qed
  qed
qed

text \<open>
  C4 (as the source has it). On a freshly constructed \<^verbatim>\<open>GameState\<close> and after any
  sequence of \<^verbatim>\<open>makeMove\<close> / \<^verbatim>\<open>undoMove\<close> calls, \<^verbatim>\<open>moveLog\<close> holds
  exactly as many entries as there are applied, not yet undone moves, while
  \<^verbatim>\<open>castlingRightsLog\<close> and \<^verbatim>\<open>enPassantPossibleLog\<close> have equal length, one
  more than \<^verbatim>\<open>moveLog\<close>: the constructor pushes the initial rights and the initial
  en-passant target, so that \<^verbatim>\<open>back()\<close> after an undo finds the values to restore.
\<close>

theorem C4_history_stack_lengths:
  "length (moveLog (runCalls newGameState cs)) = pending 0 cs
   \<and> length (castlingRightsLog (runCalls newGameState cs)) = pending 0 cs + 1
   \<and> length (enPassantPossibleLog (runCalls newGameState cs)) = pending 0 cs + 1"
  using stacks_after_calls [of newGameState 0 cs] by (simp add: newGameState_def)

text \<open>
  C4 as stated fails already on the constructed object: the move log is empty while the
  other two stacks hold one entry each, so the three lengths are not equal.
\<close>

theorem C4_counterexample:
  "length (moveLog newGameState) = 0
   \<and> length (castlingRightsLog newGameState) = 1
   \<and> length (enPassantPossibleLog newGameState) = 1
   \<and> length (moveLog newGameState) \<noteq> length (castlingRightsLog newGameState)"
  by (simp add: newGameState_def)

section \<open>The move returned by the search\<close>

lemma searchMoves_nextMove:
  assumes rec: "\<And>gs ms a b nm. fst (snd (rec gs ms a b nm)) = nm"
  shows "fst (snd (searchMoves rec root moves maxScore alpha beta nextMove gs)) = nextMove
       \<or> (root \<and> fst (snd (searchMoves rec root moves maxScore alpha beta nextMove gs)) \<in> set moves)"
proof (induction moves arbitrary: maxScore alpha nextMove gs)
  case Nil
  then show ?case by simp
next
  case (Cons move rest)
  obtain nextMoves gs2 where gv: "getValidMoves (makeMove gs move) = (nextMoves, gs2)"
    by (cases "getValidMoves (makeMove gs move)")
  obtain r nm1 gs3 where rc: "rec gs2 nextMoves (- beta) (- alpha) nextMove = (r, nm1, gs3)"
    by (cases "rec gs2 nextMoves (- beta) (- alpha) nextMove") auto
  have nm1: "nm1 = nextMove" using rec [of gs2 nextMoves "- beta" "- alpha" nextMove] rc by simp
  define score where "score = - r"
  define nm2 where "nm2 = (if score > maxScore \<and> root then move else nm1)"
  define m2 where "m2 = (if score > maxScore then score else maxScore)"
  define a2 where "a2 = (if m2 > alpha then m2 else alpha)"
  have nm2: "nm2 = nextMove \<or> (root \<and> nm2 = move)"
    using nm1 by (auto simp: nm2_def)
  have step: "searchMoves rec root (move # rest) maxScore alpha beta nextMove gs =
      (if a2 \<ge> beta then (m2, nm2, undoMove gs3)
       else searchMoves rec root rest m2 a2 beta nm2 (undoMove gs3))"
    by (simp add: gv rc Let_def score_def nm2_def m2_def a2_def)
  show ?case
  proof (cases "a2 \<ge> beta")
    case True
    then show ?thesis using step nm2 by auto
  next
    case False
    then have eq: "searchMoves rec root (move # rest) maxScore alpha beta nextMove gs =
        searchMoves rec root rest m2 a2 beta nm2 (undoMove gs3)"
      using step by simp
    from Cons.IH [of m2 a2 nm2 "undoMove gs3"] nm2 show ?thesis
      unfolding eq by auto
  qed
qed

lemma findMoveNegaMaxAlphaBeta_keeps_nextMove:
  "d < DEPTH \<Longrightarrow> fst (snd (findMoveNegaMaxAlphaBeta d tm gs ms a b nm)) = nm"
proof (induction d arbitrary: tm gs ms a b nm)
  case 0
  then show ?case by simp
next
  case (Suc d)
  then have d: "d < DEPTH" and nr: "Suc d \<noteq> DEPTH" by auto
  have rec: "\<And>gs ms a b nm. fst (snd (findMoveNegaMaxAlphaBeta d (- tm) gs ms a b nm)) = nm"
    using Suc.IH d by blast
  show ?case
    using searchMoves_nextMove [of "findMoveNegaMaxAlphaBeta d (- tm)", OF rec, of False ms "- CHECKMATE" a b nm gs] nr
    by simp
qed

lemma findMoveNegaMaxAlphaBeta_root_nextMove:
  "fst (snd (findMoveNegaMaxAlphaBeta DEPTH tm gs ms a b nm)) = nm
   \<or> fst (snd (findMoveNegaMaxAlphaBeta DEPTH tm gs ms a b nm)) \<in> set ms"
proof -
  have D: "DEPTH = Suc (Suc (Suc 0))" by (simp add: DEPTH_def)
  have rec: "\<And>gs ms a b nm.
      fst (snd (findMoveNegaMaxAlphaBeta (Suc (Suc 0)) (- tm) gs ms a b nm)) = nm"
    by (rule findMoveNegaMaxAlphaBeta_keeps_nextMove) (simp add: DEPTH_def)
  have unfold: "findMoveNegaMaxAlphaBeta DEPTH tm gs ms a b nm =
      searchMoves (findMoveNegaMaxAlphaBeta (Suc (Suc 0)) (- tm)) True ms (- CHECKMATE) a b nm gs"
    by (simp only: D findMoveNegaMaxAlphaBeta.simps(2) simp_thms)
  show ?thesis
    unfolding unfold
    using searchMoves_nextMove [of "findMoveNegaMaxAlphaBeta (Suc (Suc 0)) (- tm)", OF rec,
        of True ms "- CHECKMATE" a b nm gs]
    by auto
qed

lemma shuffleFrom_set_length:
  "i < length ms \<Longrightarrow> set (shuffleFrom gen k i ms) = set ms \<and> length (shuffleFrom gen k i ms) = length ms"
proof (induction i arbitrary: k ms)
  case 0
  then show ?case by simp
next
  case (Suc i)
  define j where "j = gen k mod Suc (Suc i)"
  have "j < Suc (Suc i)" unfolding j_def by (rule mod_less_divisor) simp
  then have j: "j < length ms" using Suc.prems by simp
  define ms' where "ms' = (if Suc i \<noteq> j then swapAt (Suc i) j ms else ms)"
  have same: "set ms' = set ms \<and> length ms' = length ms"
    using Suc.prems j by (simp add: ms'_def swapAt_def)
  then have less: "i < length ms'" using Suc.prems by simp
  have step: "shuffleFrom gen k (Suc i) ms = shuffleFrom gen (Suc k) i ms'"
    by (simp add: Let_def j_def ms'_def)
  show ?case
    unfolding step using Suc.IH [OF less, of "Suc k"] same by simp
qed

text \<open>
  C7. For every game state, every random source and every non-empty list
  \<^verbatim>\<open>validMoves\<close>, the move \<^verbatim>\<open>findBestMove\<close> returns is an element of
  \<^verbatim>\<open>validMoves\<close>: the search records either nothing (the default move, whose
  \<^verbatim>\<open>moveID\<close> is 0) or one of the shuffled root moves, and whenever the recorded
  move has \<^verbatim>\<open>moveID\<close> 0 or fails \<^verbatim>\<open>isValidMove\<close> the result is
  \<^verbatim>\<open>validMoves[bounded(size)]\<close>.
\<close>

theorem C7_findBestMove_returns_legal_move:
  assumes "validMoves \<noteq> []"
  shows "fst (findBestMove gen gs validMoves) \<in> set validMoves"
proof -
  define shuffled where "shuffled = shuffleFrom gen 0 (length validMoves - 1) validMoves"
  have sh: "set shuffled = set validMoves"
    using assms shuffleFrom_set_length [of "length validMoves - 1" validMoves gen 0]
    by (simp add: shuffled_def)
  obtain score nm gs' where ab: "findMoveNegaMaxAlphaBeta DEPTH (if whiteToMove gs then 1 else -1) gs shuffled
       (- CHECKMATE) CHECKMATE defaultMove = (score, nm, gs')"
    by (cases "findMoveNegaMaxAlphaBeta DEPTH (if whiteToMove gs then 1 else -1) gs shuffled
       (- CHECKMATE) CHECKMATE defaultMove") auto
  have nm: "nm = defaultMove \<or> nm \<in> set validMoves"
    using findMoveNegaMaxAlphaBeta_root_nextMove [of "if whiteToMove gs then 1 else -1" gs shuffled
         "- CHECKMATE" CHECKMATE defaultMove] ab sh by auto
  have fb: "findBestMove gen gs validMoves =
      (if moveID nm = 0 \<or> \<not> isValidMove nm validMoves
       then (findRandomMove gen (length validMoves - 1) validMoves, gs') else (nm, gs'))"
    unfolding findBestMove_def Let_def shuffled_def [symmetric] ab using assms by simp
  show ?thesis
  proof (cases "moveID nm = 0 \<or> \<not> isValidMove nm validMoves")
    case True
    then have "fst (findBestMove gen gs validMoves) =
        validMoves ! (gen (length validMoves - 1) mod length validMoves)"
      using assms by (simp add: fb findRandomMove_def)
    then show ?thesis using assms by simp
  next
    case False
    then have "nm \<noteq> defaultMove" by (auto simp: defaultMove_def)
    moreover have "fst (findBestMove gen gs validMoves) = nm"
      using False by (simp add: fb)
    ultimately show ?thesis using nm by simp
  qed
qed

theorem C7_witness:
  "[defaultMove] \<noteq> [] \<and> fst (findBestMove (\<lambda>k. 0) newGameState [defaultMove]) \<in> set [defaultMove]"
  using C7_findBestMove_returns_legal_move [of "[defaultMove]" "\<lambda>k. 0" newGameState] by simp

end
